theory Spec2Isabelle
  imports Main "HOL-Library.Word"
begin

unbundle bit_operations_syntax

section \<open>The User CRUD service: controller and service over a document store\<close>

text \<open>
  The Go program consists of a gin controller (\<open>UserController\<close>) on top of a service
  (\<open>userService\<close>) that talks to one MongoDB collection. The controller and the service are
  embedded function by function. Everything outside the repository is either a parameter
  (the collection, the clock, the JSON decoder of an ObjectID) or a small model of the
  library routine the code calls (\<open>errors.Is\<close>, \<open>ObjectIDFromHex\<close>, the struct encoders
  selected by the \<open>json\<close> and \<open>bson\<close> tags of the source, gin's response helpers).
  The request's \<open>context.Context\<close> is only handed through by the code and is left out.
\<close>

subsection \<open>Errors\<close>

text \<open>
  Go error values. \<open>Errorf m\<close> is \<open>fmt.Errorf\<close> without \<open>%w\<close>; \<open>Wrap m e\<close> is
  \<open>fmt.Errorf(m + ": %w", e)\<close>, whose \<open>Unwrap\<close> gives \<open>e\<close>; \<open>Opaque m\<close> is any other
  error a library hands back.
\<close>

datatype error =
    ErrNoDocuments
  | ErrInvalidHex
  | Errorf string
  | Wrap string error
  | Opaque string

text \<open>\<open>errors.Is\<close>: compare, then follow the \<open>Unwrap\<close> chain.\<close>

fun errors_Is :: "error \<Rightarrow> error \<Rightarrow> bool" where
  "errors_Is (Wrap m e) t = (Wrap m e = t \<or> errors_Is e t)"
| "errors_Is e t = (e = t)"

subsection \<open>Object identifiers\<close>

text \<open>
  \<open>primitive.ObjectID\<close> is \<open>[12]byte\<close>: 96 bits, read here as one big-endian word, so that
  the fixed length is part of the type.
\<close>

type_synonym ObjectID = "96 word"

definition hexval :: "char \<Rightarrow> nat option" where
  "hexval c =
     (let n = (of_char c :: nat) in
      if 48 \<le> n \<and> n \<le> 57 then Some (n - 48)
      else if 97 \<le> n \<and> n \<le> 102 then Some (n - 87)
      else if 65 \<le> n \<and> n \<le> 70 then Some (n - 55)
      else None)"

fun hex_Decode :: "string \<Rightarrow> ObjectID \<Rightarrow> ObjectID option" where
  "hex_Decode [] acc = Some acc"
| "hex_Decode (c # cs) acc =
     (case hexval c of
        None \<Rightarrow> None
      | Some d \<Rightarrow> hex_Decode cs (push_bit 4 acc OR of_nat d))"

text \<open>
  \<open>primitive.ObjectIDFromHex\<close>: exactly 24 hexadecimal digits, or an error. The two errors
  of the driver (wrong length, bad digit) are not told apart by the code and are both
  \<open>ErrInvalidHex\<close> here.
\<close>

definition ObjectIDFromHex :: "string \<Rightarrow> error + ObjectID" where
  "ObjectIDFromHex s =
     (if length s \<noteq> 24 then Inl ErrInvalidHex
      else case hex_Decode s 0 of
             None \<Rightarrow> Inl ErrInvalidHex
           | Some oid \<Rightarrow> Inr oid)"

definition hexdigit :: "nat \<Rightarrow> char" where
  "hexdigit n = (if n < 10 then char_of (48 + n) else char_of (87 + n))"

text \<open>\<open>ObjectID.Hex\<close>: 24 lower-case hexadecimal digits.\<close>

definition Hex :: "ObjectID \<Rightarrow> string" where
  "Hex oid = map (\<lambda>i. hexdigit (unat (drop_bit (4 * (23 - i)) oid AND 15))) [0..<24]"

subsection \<open>The User entity\<close>

text \<open>Every field of the struct is a pointer: \<open>None\<close> is the nil pointer.\<close>

record User =
  ID :: "ObjectID option"
  Name :: "string option"
  Dob :: "string option"
  Address :: "string option"
  Description :: "string option"
  CreatedAt :: "string option"

subsection \<open>JSON\<close>

text \<open>
  JSON documents as values. A \<open>JString\<close> carries the text the string denotes; rendering
  to bytes and parsing from bytes are left to \<open>encoding/json\<close>. \<open>JNull\<close> is the four
  bytes \<open>null\<close> on the wire.
\<close>

datatype json =
    JNull
  | JBool bool
  | JNumber string
  | JString string
  | JArray "json list"
  | JObject "(string \<times> json) list"

definition json_field :: "string \<Rightarrow> string option \<Rightarrow> (string \<times> json) list" where
  "json_field k v = (case v of None \<Rightarrow> [] | Some s \<Rightarrow> [(k, JString s)])"

text \<open>
  \<open>json.Marshal\<close> of a \<open>*User\<close>, following the \<open>json:"...,omitempty"\<close> tags: a nil pointer
  is \<open>null\<close>; a nil field is left out; the identifier is written by
  \<open>ObjectID.MarshalJSON\<close> as its hexadecimal string.
\<close>

definition Marshal :: "User option \<Rightarrow> json" where
  "Marshal p =
     (case p of
        None \<Rightarrow> JNull
      | Some u \<Rightarrow>
          JObject (json_field ''id'' (map_option Hex (ID u))
                   @ json_field ''name'' (Name u)
                   @ json_field ''dob'' (Dob u)
                   @ json_field ''address'' (Address u)
                   @ json_field ''description'' (Description u)
                   @ json_field ''createdAt'' (CreatedAt u)))"

text \<open>
  Key matching of \<open>encoding/json\<close> when decoding into a struct is case-insensitive under
  Unicode simple folding. For the letters of the field names used here that is ASCII case
  plus the long s (U+017F, bytes C5 BF), which folds to \<open>s\<close>.
\<close>

definition lower :: "char \<Rightarrow> char" where
  "lower c =
     (let n = (of_char c :: nat) in if 65 \<le> n \<and> n \<le> 90 then char_of (n + 32) else c)"

fun foldName :: "string \<Rightarrow> string" where
  "foldName [] = []"
| "foldName [c] = [lower c]"
| "foldName (c # d # cs) =
     (if c = CHR 0xC5 \<and> d = CHR 0xBF then CHR ''s'' # foldName cs
      else lower c # foldName (d # cs))"

text \<open>
  Decoding a JSON value into a \<open>*string\<close> field: \<open>null\<close> sets the pointer to nil, a
  string sets it, anything else is an \<open>UnmarshalTypeError\<close> (\<open>None\<close>).
\<close>

fun string_field :: "json \<Rightarrow> string option option" where
  "string_field JNull = Some None"
| "string_field (JString s) = Some (Some s)"
| "string_field _ = None"

definition type_error :: error where
  "type_error = Opaque ''json: cannot unmarshal value into Go struct field''"

fun unmarshal_User_members ::
  "(json \<Rightarrow> error + ObjectID) \<Rightarrow> (string \<times> json) list \<Rightarrow> User \<Rightarrow> error + User" where
  "unmarshal_User_members dec [] u = Inr u"
| "unmarshal_User_members dec ((k, v) # kvs) u =
     (let f = foldName k in
      if f = ''id'' then
        (case v of
           JNull \<Rightarrow> unmarshal_User_members dec kvs (u\<lparr>ID := None\<rparr>)
         | _ \<Rightarrow> (case dec v of
                  Inl e \<Rightarrow> Inl e
                | Inr oid \<Rightarrow> unmarshal_User_members dec kvs (u\<lparr>ID := Some oid\<rparr>)))
      else if f = ''name'' then
        (case string_field v of
           None \<Rightarrow> Inl type_error
         | Some x \<Rightarrow> unmarshal_User_members dec kvs (u\<lparr>Name := x\<rparr>))
      else if f = ''dob'' then
        (case string_field v of
           None \<Rightarrow> Inl type_error
         | Some x \<Rightarrow> unmarshal_User_members dec kvs (u\<lparr>Dob := x\<rparr>))
      else if f = ''address'' then
        (case string_field v of
           None \<Rightarrow> Inl type_error
         | Some x \<Rightarrow> unmarshal_User_members dec kvs (u\<lparr>Address := x\<rparr>))
      else if f = ''description'' then
        (case string_field v of
           None \<Rightarrow> Inl type_error
         | Some x \<Rightarrow> unmarshal_User_members dec kvs (u\<lparr>Description := x\<rparr>))
      else if f = ''createdat'' then
        (case string_field v of
           None \<Rightarrow> Inl type_error
         | Some x \<Rightarrow> unmarshal_User_members dec kvs (u\<lparr>CreatedAt := x\<rparr>))
      else unmarshal_User_members dec kvs u)"

definition zero_User :: User where
  "zero_User = \<lparr>ID = None, Name = None, Dob = None, Address = None,
                Description = None, CreatedAt = None\<rparr>"

text \<open>
  \<open>json.Unmarshal(data, &got)\<close> with \<open>var got User\<close>, as the tests do it. The parameter
  \<open>dec\<close> is the driver's \<open>ObjectID.UnmarshalJSON\<close>. Members are taken in order, a later
  duplicate overwrites an earlier one, unknown keys are skipped, \<open>null\<close> at the top leaves
  the value as it was.
\<close>

definition Unmarshal :: "(json \<Rightarrow> error + ObjectID) \<Rightarrow> json \<Rightarrow> error + User" where
  "Unmarshal dec j =
     (case j of
        JNull \<Rightarrow> Inr zero_User
      | JObject kvs \<Rightarrow> unmarshal_User_members dec kvs zero_User
      | _ \<Rightarrow> Inl type_error)"

subsection \<open>Request payloads and binding\<close>

text \<open>
  The anonymous payload struct of \<open>CreateUser\<close> and \<open>UpdateUser\<close>: four \<open>*string\<close> fields
  with the JSON names \<open>name\<close>, \<open>dob\<close>, \<open>address\<close>, \<open>description\<close>. The two handlers differ
  in the \<open>binding:"required"\<close> tags only.
\<close>

record payload =
  pName :: "string option"
  pDob :: "string option"
  pAddress :: "string option"
  pDescription :: "string option"

definition zero_payload :: payload where
  "zero_payload = \<lparr>pName = None, pDob = None, pAddress = None, pDescription = None\<rparr>"

text \<open>
  \<open>encoding/json\<close> decoding an object into the payload: members in order, a later
  duplicate overwriting an earlier one, unknown keys skipped. The decoder goes on after a
  type error and reports it at the end; the handlers drop the payload on any error, so
  the model stops at the first one.
\<close>

fun decode_members :: "(string \<times> json) list \<Rightarrow> payload \<Rightarrow> error + payload" where
  "decode_members [] p = Inr p"
| "decode_members ((k, v) # kvs) p =
     (let f = foldName k in
      if f = ''name'' then
        (case string_field v of
           None \<Rightarrow> Inl type_error
         | Some x \<Rightarrow> decode_members kvs (p\<lparr>pName := x\<rparr>))
      else if f = ''dob'' then
        (case string_field v of
           None \<Rightarrow> Inl type_error
         | Some x \<Rightarrow> decode_members kvs (p\<lparr>pDob := x\<rparr>))
      else if f = ''address'' then
        (case string_field v of
           None \<Rightarrow> Inl type_error
         | Some x \<Rightarrow> decode_members kvs (p\<lparr>pAddress := x\<rparr>))
      else if f = ''description'' then
        (case string_field v of
           None \<Rightarrow> Inl type_error
         | Some x \<Rightarrow> decode_members kvs (p\<lparr>pDescription := x\<rparr>))
      else decode_members kvs p)"

definition decode_payload :: "json \<Rightarrow> error + payload" where
  "decode_payload j =
     (case j of
        JNull \<Rightarrow> Inr zero_payload
      | JObject kvs \<Rightarrow> decode_members kvs zero_payload
      | _ \<Rightarrow> Inl type_error)"

text \<open>
  A request: the \<open>:id\<close> path parameter and the body. The body is \<open>None\<close> when its bytes are
  not a JSON document (an empty body included), otherwise the document.
\<close>

record request =
  Param_id :: string
  Body :: "json option"

text \<open>
  \<open>c.ShouldBindJSON(&payload)\<close>: decode, then validate. \<open>required\<close> on a pointer field
  asks for a non-nil pointer; the update payload has no validation tags.
\<close>

definition ShouldBindJSON :: "bool \<Rightarrow> request \<Rightarrow> error + payload" where
  "ShouldBindJSON required r =
     (case Body r of
        None \<Rightarrow> Inl (Opaque ''invalid JSON'')
      | Some j \<Rightarrow>
          (case decode_payload j of
             Inl e \<Rightarrow> Inl e
           | Inr p \<Rightarrow>
               if required \<and> (pName p = None \<or> pDob p = None \<or> pAddress p = None)
               then Inl (Opaque ''validation: required field missing'')
               else Inr p))"

subsection \<open>BSON and the collection\<close>

datatype bson =
    BString string
  | BObjectID ObjectID
  | BInt int
  | BDoc "(string \<times> bson) list"

type_synonym bson_D = "(string \<times> bson) list"

definition bson_field :: "string \<Rightarrow> bson option \<Rightarrow> bson_D" where
  "bson_field k v = (case v of None \<Rightarrow> [] | Some b \<Rightarrow> [(k, b)])"

text \<open>
  The document the driver builds from a \<open>*User\<close>, following the
  \<open>bson:"...,omitempty"\<close> tags of the struct: nil fields are left out.
\<close>

definition bson_of_User :: "User \<Rightarrow> bson_D" where
  "bson_of_User u =
     bson_field ''_id'' (map_option BObjectID (ID u))
     @ bson_field ''name'' (map_option BString (Name u))
     @ bson_field ''dob'' (map_option BString (Dob u))
     @ bson_field ''address'' (map_option BString (Address u))
     @ bson_field ''description'' (map_option BString (Description u))
     @ bson_field ''createdAt'' (map_option BString (CreatedAt u))"

record InsertOneResult =
  InsertedID :: bson

record UpdateResult =
  MatchedCount :: int
  ModifiedCount :: int

record DeleteResult =
  DeletedCount :: int

text \<open>
  \<open>*mongo.Collection\<close>, as far as the service uses it. The store is outside the repository,
  so it is a parameter: four operations on a state \<open>'s\<close> that stands for the database
  and whatever else decides an outcome (the network, say). \<open>FindOne\<close> is
  \<open>FindOne(ctx, filter).Decode(&user)\<close>: the error, or the decoded document.
\<close>

record 's Collection =
  FindOne :: "bson_D \<Rightarrow> 's \<Rightarrow> (error + User) \<times> 's"
  InsertOne :: "bson_D \<Rightarrow> 's \<Rightarrow> (error + InsertOneResult) \<times> 's"
  UpdateByID :: "ObjectID \<Rightarrow> bson_D \<Rightarrow> 's \<Rightarrow> (error + UpdateResult) \<times> 's"
  DeleteOne :: "bson_D \<Rightarrow> 's \<Rightarrow> (error + DeleteResult) \<times> 's"

text \<open>
  What \<open>InsertOne\<close> of the Go driver reports as \<open>InsertedID\<close>: the \<open>_id\<close> of the
  document it sent, which is the document's own or, for a document without one, the
  ObjectID the driver generated for it before sending.
\<close>

definition reports_document_id :: "bson_D \<Rightarrow> InsertOneResult \<Rightarrow> bool" where
  "reports_document_id d res =
     (case map_of d ''_id'' of
        Some v \<Rightarrow> InsertedID res = v
      | None \<Rightarrow> (case InsertedID res of BObjectID oid \<Rightarrow> True | _ \<Rightarrow> False))"

subsection \<open>The clock\<close>

text \<open>
  \<open>time.Now().UTC()\<close> read as civil time. \<open>Format(time.RFC3339)\<close> of a UTC time is
  \<open>2006-01-02T15:04:05Z\<close>: zero-padded fields and the zone \<open>Z\<close>.
\<close>

record time =
  Year :: nat
  Month :: nat
  Day :: nat
  Hour :: nat
  Minute :: nat
  Second :: nat

fun decimal :: "nat \<Rightarrow> string" where
  "decimal n =
     (if n < 10 then [char_of (48 + n)]
      else decimal (n div 10) @ [char_of (48 + n mod 10)])"

declare decimal.simps [simp del]

definition appendInt :: "nat \<Rightarrow> nat \<Rightarrow> string" where
  "appendInt n w = replicate (w - length (decimal n)) (CHR ''0'') @ decimal n"

definition Format_RFC3339 :: "time \<Rightarrow> string" where
  "Format_RFC3339 t =
     appendInt (Year t) 4 @ ''-'' @ appendInt (Month t) 2 @ ''-'' @ appendInt (Day t) 2
     @ ''T'' @ appendInt (Hour t) 2 @ '':'' @ appendInt (Minute t) 2 @ '':''
     @ appendInt (Second t) 2 @ ''Z''"

subsection \<open>The service\<close>

text \<open>
  The \<open>UserService\<close> interface the controller holds. A Go result pair \<open>(*User, error)\<close>
  is a pair of options. \<open>create\<close> takes a pointer and writes through it, so it returns
  the pointee as it is after the call, next to the error.
\<close>

record 's UserService =
  get :: "string \<Rightarrow> 's \<Rightarrow> (User option \<times> error option) \<times> 's"
  create :: "User \<Rightarrow> 's \<Rightarrow> (error option \<times> User) \<times> 's"
  update :: "string \<Rightarrow> User \<Rightarrow> 's \<Rightarrow> (User option \<times> error option) \<times> 's"
  delete :: "string \<Rightarrow> 's \<Rightarrow> error option \<times> 's"

definition userService_get ::
  "'s Collection \<Rightarrow> string \<Rightarrow> 's \<Rightarrow> (User option \<times> error option) \<times> 's" where
  "userService_get coll ident s =
     (case ObjectIDFromHex ident of
        Inl err \<Rightarrow> ((None, Some (Wrap ''invalid user ID'' err)), s)
      | Inr objectId \<Rightarrow>
          (case FindOne coll [(''_id'', BObjectID objectId)] s of
             (Inl err, s') \<Rightarrow>
               if errors_Is err ErrNoDocuments then ((None, Some err), s')
               else ((None, Some (Wrap ''failed to find User'' err)), s')
           | (Inr user, s') \<Rightarrow> ((Some user, None), s')))"

definition userService_create ::
  "'s Collection \<Rightarrow> ('s \<Rightarrow> time) \<Rightarrow> User \<Rightarrow> 's \<Rightarrow> (error option \<times> User) \<times> 's" where
  "userService_create coll Now user s =
     (let now = Format_RFC3339 (Now s);
          user1 = user\<lparr>CreatedAt := Some now\<rparr>
      in case InsertOne coll (bson_of_User user1) s of
           (Inl err, s') \<Rightarrow> ((Some err, user1), s')
         | (Inr res, s') \<Rightarrow>
             (case InsertedID res of
                BObjectID insertedId \<Rightarrow> ((None, user1\<lparr>ID := Some insertedId\<rparr>), s')
              | _ \<Rightarrow> ((None, user1), s')))"

definition userService_update ::
  "'s Collection \<Rightarrow> string \<Rightarrow> User \<Rightarrow> 's \<Rightarrow> (User option \<times> error option) \<times> 's" where
  "userService_update coll ident user s =
     (case ObjectIDFromHex ident of
        Inl err \<Rightarrow> ((None, Some (Wrap ''failed to parse user ID'' err)), s)
      | Inr objectId \<Rightarrow>
          (case UpdateByID coll objectId [(''$set'', BDoc (bson_of_User user))] s of
             (Inl err, s') \<Rightarrow>
               ((None, Some (Wrap (''failed to modify user with id '' @ ident) err)), s')
           | (Inr res, s') \<Rightarrow>
               if MatchedCount res < 1 then ((None, None), s')
               else ((Some user, None), s')))"

definition userService_delete :: "'s Collection \<Rightarrow> string \<Rightarrow> 's \<Rightarrow> error option \<times> 's" where
  "userService_delete coll ident s =
     (case ObjectIDFromHex ident of
        Inl err \<Rightarrow> (Some (Errorf ''invalid user ID''), s)
      | Inr objectId \<Rightarrow>
          (case DeleteOne coll [(''_id'', BObjectID objectId)] s of
             (Inl err, s') \<Rightarrow>
               (Some (Wrap (''failed to delete user with id '' @ ident) err), s')
           | (Inr res, s') \<Rightarrow> (None, s')))"

text \<open>\<open>&userService{coll}\<close> as a \<open>UserService\<close>; the clock is the process's.\<close>

definition userService :: "'s Collection \<Rightarrow> ('s \<Rightarrow> time) \<Rightarrow> 's UserService" where
  "userService coll Now =
     \<lparr>get = userService_get coll,
      create = userService_create coll Now,
      update = userService_update coll,
      delete = userService_delete coll\<rparr>"

subsection \<open>The controller\<close>

text \<open>
  What gin has written when a handler returns: the status code, the body and the errors
  attached to the context (\<open>c.Errors\<close>). \<open>AbortWithStatus\<close> and \<open>AbortWithError\<close> write the
  status line and no body; \<open>JSON\<close> writes the status and the marshalled value; \<open>Status\<close>
  only sets the code.
\<close>

datatype body = NoBody | JSONBody json

record Context =
  code :: nat
  body :: body
  Errors :: "error list"

definition new_Context :: Context where
  "new_Context = \<lparr>code = 200, body = NoBody, Errors = []\<rparr>"

definition AbortWithStatus :: "nat \<Rightarrow> Context \<Rightarrow> Context" where
  "AbortWithStatus n c = c\<lparr>code := n\<rparr>"

definition AbortWithError :: "nat \<Rightarrow> error \<Rightarrow> Context \<Rightarrow> Context" where
  "AbortWithError n err c = (AbortWithStatus n c)\<lparr>Errors := Errors c @ [err]\<rparr>"

definition JSON :: "nat \<Rightarrow> User option \<Rightarrow> Context \<Rightarrow> Context" where
  "JSON n obj c = c\<lparr>code := n, body := JSONBody (Marshal obj)\<rparr>"

definition Status :: "nat \<Rightarrow> Context \<Rightarrow> Context" where
  "Status n c = c\<lparr>code := n\<rparr>"

text \<open>
  The struct literal \<open>&User{Name: payload.Name, Dob: payload.Dob, Address: payload.Address,
  Description: payload.Description}\<close> that \<open>CreateUser\<close> and \<open>UpdateUser\<close> both build:
  the fields not named stay nil.
\<close>

definition User_of_payload :: "payload \<Rightarrow> User" where
  "User_of_payload p =
     \<lparr>ID = None, Name = pName p, Dob = pDob p, Address = pAddress p,
      Description = pDescription p, CreatedAt = None\<rparr>"

definition GetUser :: "'s UserService \<Rightarrow> request \<Rightarrow> 's \<Rightarrow> Context \<times> 's" where
  "GetUser svc r s =
     (case get svc (Param_id r) s of
        ((user, err), s') \<Rightarrow>
          (case err of
             Some e \<Rightarrow>
               if errors_Is e ErrNoDocuments then (AbortWithStatus 204 new_Context, s')
               else (JSON 200 user new_Context, s')
           | None \<Rightarrow> (JSON 200 user new_Context, s')))"

definition CreateUser :: "'s UserService \<Rightarrow> request \<Rightarrow> 's \<Rightarrow> Context \<times> 's" where
  "CreateUser svc r s =
     (case ShouldBindJSON True r of
        Inl err \<Rightarrow> (AbortWithError 400 (Errorf ''invalid new user request'') new_Context, s)
      | Inr p \<Rightarrow>
          (let user = User_of_payload p
           in case create svc user s of
                ((Some err, user'), s') \<Rightarrow> (AbortWithError 500 err new_Context, s')
              | ((None, user'), s') \<Rightarrow> (JSON 201 (Some user') new_Context, s')))"

definition UpdateUser :: "'s UserService \<Rightarrow> request \<Rightarrow> 's \<Rightarrow> Context \<times> 's" where
  "UpdateUser svc r s =
     (case ShouldBindJSON False r of
        Inl err \<Rightarrow> (AbortWithError 400 (Errorf ''invalid update user request'') new_Context, s)
      | Inr p \<Rightarrow>
          (let user = User_of_payload p
           in case update svc (Param_id r) user s of
                ((updatedUser, Some err), s') \<Rightarrow> (AbortWithError 500 err new_Context, s')
              | ((None, None), s') \<Rightarrow>
                  (AbortWithError 400
                     (Errorf (''user with id `'' @ Param_id r @ ''` not found'')) new_Context, s')
              | ((Some u, None), s') \<Rightarrow> (JSON 202 (Some u) new_Context, s')))"

definition DeleteUser :: "'s UserService \<Rightarrow> request \<Rightarrow> 's \<Rightarrow> Context \<times> 's" where
  "DeleteUser svc r s =
     (case delete svc (Param_id r) s of
        (Some err, s') \<Rightarrow> (AbortWithError 500 err new_Context, s')
      | (None, s') \<Rightarrow> (Status 200 new_Context, s'))"

subsection \<open>Stores to run the service against\<close>

text \<open>
  A reference store in memory: the documents in insertion order, the next identifier the
  driver will generate, and a fault that, when set, makes every operation fail with it.
  It follows MongoDB for the operations the service issues: filters match on equal
  fields, an insert without \<open>_id\<close> gets a generated ObjectID, \<open>$set\<close> overwrites or adds
  the listed fields of the first matching document and leaves its other fields alone,
  and a delete removes the first match.
\<close>

record mem =
  docs :: "bson_D list"
  next_oid :: ObjectID
  fault :: "error option"

definition matches :: "bson_D \<Rightarrow> bson_D \<Rightarrow> bool" where
  "matches flt d = list_all (\<lambda>(k, v). map_of d k = Some v) flt"

fun set_field :: "string \<Rightarrow> bson \<Rightarrow> bson_D \<Rightarrow> bson_D" where
  "set_field k v [] = [(k, v)]"
| "set_field k v ((k', v') # d) =
     (if k' = k then (k, v) # d else (k', v') # set_field k v d)"

fun apply_set :: "bson_D \<Rightarrow> bson_D \<Rightarrow> bson_D" where
  "apply_set [] d = d"
| "apply_set ((k, v) # sets) d = apply_set sets (set_field k v d)"

fun update_first :: "('a \<Rightarrow> bool) \<Rightarrow> ('a \<Rightarrow> 'a) \<Rightarrow> 'a list \<Rightarrow> 'a list option" where
  "update_first P f [] = None"
| "update_first P f (x # xs) =
     (if P x then Some (f x # xs) else map_option ((#) x) (update_first P f xs))"

fun delete_first :: "('a \<Rightarrow> bool) \<Rightarrow> 'a list \<Rightarrow> 'a list option" where
  "delete_first P [] = None"
| "delete_first P (x # xs) =
     (if P x then Some xs else map_option ((#) x) (delete_first P xs))"

definition bson_str :: "bson option \<Rightarrow> string option option" where
  "bson_str b =
     (case b of None \<Rightarrow> Some None | Some (BString x) \<Rightarrow> Some (Some x) | Some _ \<Rightarrow> None)"

definition bson_oid :: "bson option \<Rightarrow> ObjectID option option" where
  "bson_oid b =
     (case b of None \<Rightarrow> Some None | Some (BObjectID x) \<Rightarrow> Some (Some x) | Some _ \<Rightarrow> None)"

definition Decode :: "bson_D \<Rightarrow> error + User" where
  "Decode d =
     (case bson_oid (map_of d ''_id'') of None \<Rightarrow> Inl (Opaque ''cannot decode _id'') | Some i \<Rightarrow>
      case bson_str (map_of d ''name'') of None \<Rightarrow> Inl (Opaque ''cannot decode name'') | Some n \<Rightarrow>
      case bson_str (map_of d ''dob'') of None \<Rightarrow> Inl (Opaque ''cannot decode dob'') | Some b \<Rightarrow>
      case bson_str (map_of d ''address'') of None \<Rightarrow> Inl (Opaque ''cannot decode address'') | Some a \<Rightarrow>
      case bson_str (map_of d ''description'') of None \<Rightarrow> Inl (Opaque ''cannot decode description'') | Some e \<Rightarrow>
      case bson_str (map_of d ''createdAt'') of None \<Rightarrow> Inl (Opaque ''cannot decode createdAt'') | Some c \<Rightarrow>
        Inr \<lparr>ID = i, Name = n, Dob = b, Address = a, Description = e, CreatedAt = c\<rparr>)"

definition mem_FindOne :: "bson_D \<Rightarrow> mem \<Rightarrow> (error + User) \<times> mem" where
  "mem_FindOne flt s =
     (case fault s of
        Some e \<Rightarrow> (Inl e, s)
      | None \<Rightarrow>
          (case find (matches flt) (docs s) of
             None \<Rightarrow> (Inl ErrNoDocuments, s)
           | Some d \<Rightarrow> (Decode d, s)))"

definition mem_InsertOne :: "bson_D \<Rightarrow> mem \<Rightarrow> (error + InsertOneResult) \<times> mem" where
  "mem_InsertOne d s =
     (case fault s of
        Some e \<Rightarrow> (Inl e, s)
      | None \<Rightarrow>
          (case map_of d ''_id'' of
             Some v \<Rightarrow>
               if find (matches [(''_id'', v)]) (docs s) \<noteq> None
               then (Inl (Opaque ''E11000 duplicate key error''), s)
               else (Inr \<lparr>InsertedID = v\<rparr>, s\<lparr>docs := docs s @ [d]\<rparr>)
           | None \<Rightarrow>
               (Inr \<lparr>InsertedID = BObjectID (next_oid s)\<rparr>,
                s\<lparr>docs := docs s @ [(''_id'', BObjectID (next_oid s)) # d],
                  next_oid := next_oid s + 1\<rparr>)))"

definition mem_UpdateByID ::
  "ObjectID \<Rightarrow> bson_D \<Rightarrow> mem \<Rightarrow> (error + UpdateResult) \<times> mem" where
  "mem_UpdateByID oid upd s =
     (case fault s of
        Some e \<Rightarrow> (Inl e, s)
      | None \<Rightarrow>
          (case map_of upd ''$set'' of
             Some (BDoc sets) \<Rightarrow>
               (case update_first (matches [(''_id'', BObjectID oid)]) (apply_set sets) (docs s) of
                  None \<Rightarrow> (Inr \<lparr>MatchedCount = 0, ModifiedCount = 0\<rparr>, s)
                | Some ds \<Rightarrow>
                    (Inr \<lparr>MatchedCount = 1, ModifiedCount = (if ds = docs s then 0 else 1)\<rparr>,
                     s\<lparr>docs := ds\<rparr>))
           | _ \<Rightarrow> (Inl (Opaque ''unsupported update document''), s)))"

definition mem_DeleteOne :: "bson_D \<Rightarrow> mem \<Rightarrow> (error + DeleteResult) \<times> mem" where
  "mem_DeleteOne flt s =
     (case fault s of
        Some e \<Rightarrow> (Inl e, s)
      | None \<Rightarrow>
          (case delete_first (matches flt) (docs s) of
             None \<Rightarrow> (Inr \<lparr>DeletedCount = 0\<rparr>, s)
           | Some ds \<Rightarrow> (Inr \<lparr>DeletedCount = 1\<rparr>, s\<lparr>docs := ds\<rparr>)))"

definition mem_Collection :: "mem Collection" where
  "mem_Collection =
     \<lparr>FindOne = mem_FindOne, InsertOne = mem_InsertOne,
      UpdateByID = mem_UpdateByID, DeleteOne = mem_DeleteOne\<rparr>"

text \<open>
  A test double in the manner of the repository's mocks: nothing is stored, and every
  insert reports the inserted id it was built with.
\<close>

definition stub_Collection :: "bson \<Rightarrow> unit Collection" where
  "stub_Collection inserted =
     \<lparr>FindOne = (\<lambda>flt s. (Inl ErrNoDocuments, s)),
      InsertOne = (\<lambda>d s. (Inr \<lparr>InsertedID = inserted\<rparr>, s)),
      UpdateByID = (\<lambda>oid upd s. (Inr \<lparr>MatchedCount = 0, ModifiedCount = 0\<rparr>, s)),
      DeleteOne = (\<lambda>flt s. (Inr \<lparr>DeletedCount = 0\<rparr>, s))\<rparr>"

text \<open>
  Any collection can be wrapped so that its state also carries the list of calls it has
  received, each with the error it reported, if any. What the service sends to the store
  is then a fact about the final state.
\<close>

datatype call =
    FindOneCall bson_D
  | InsertOneCall bson_D
  | UpdateByIDCall ObjectID bson_D
  | DeleteOneCall bson_D

type_synonym calls = "(call \<times> error option) list"

definition reported :: "error + 'a \<Rightarrow> error option" where
  "reported r = (case r of Inl e \<Rightarrow> Some e | Inr x \<Rightarrow> None)"

definition traced :: "'s Collection \<Rightarrow> ('s \<times> calls) Collection" where
  "traced coll =
     \<lparr>FindOne = (\<lambda>flt (s, log).
        case FindOne coll flt s of
          (r, s') \<Rightarrow> (r, (s', log @ [(FindOneCall flt, reported r)]))),
      InsertOne = (\<lambda>d (s, log).
        case InsertOne coll d s of
          (r, s') \<Rightarrow> (r, (s', log @ [(InsertOneCall d, reported r)]))),
      UpdateByID = (\<lambda>oid upd (s, log).
        case UpdateByID coll oid upd s of
          (r, s') \<Rightarrow> (r, (s', log @ [(UpdateByIDCall oid upd, reported r)]))),
      DeleteOne = (\<lambda>flt (s, log).
        case DeleteOne coll flt s of
          (r, s') \<Rightarrow> (r, (s', log @ [(DeleteOneCall flt, reported r)])))\<rparr>"

subsection \<open>Reading a timestamp\<close>

text \<open>
  An ISO-8601 timestamp in UTC is \<open>YYYY-MM-DDThh:mm:ssZ\<close>: twenty characters, the six
  fields in decimal digits between fixed separators. \<open>stamp_fields\<close> reads the fields
  back, or gives \<open>None\<close> when the text has another shape.
\<close>

definition is_digit :: "char \<Rightarrow> bool" where
  "is_digit c = (48 \<le> (of_char c :: nat) \<and> (of_char c :: nat) \<le> 57)"

fun read_digits :: "string \<Rightarrow> nat \<Rightarrow> nat option" where
  "read_digits [] acc = Some acc"
| "read_digits (c # cs) acc =
     (if is_digit c then read_digits cs (acc * 10 + (of_char c - 48)) else None)"

definition atoi :: "string \<Rightarrow> nat option" where
  "atoi x = (if x = [] then None else read_digits x 0)"

definition stamp_fields :: "string \<Rightarrow> time option" where
  "stamp_fields x =
     (if length x = 20 \<and> x ! 4 = CHR ''-'' \<and> x ! 7 = CHR ''-'' \<and> x ! 10 = CHR ''T''
         \<and> x ! 13 = CHR '':'' \<and> x ! 16 = CHR '':'' \<and> x ! 19 = CHR ''Z''
      then
        (case atoi (take 4 x) of None \<Rightarrow> None | Some y \<Rightarrow>
         case atoi (take 2 (drop 5 x)) of None \<Rightarrow> None | Some mo \<Rightarrow>
         case atoi (take 2 (drop 8 x)) of None \<Rightarrow> None | Some d \<Rightarrow>
         case atoi (take 2 (drop 11 x)) of None \<Rightarrow> None | Some h \<Rightarrow>
         case atoi (take 2 (drop 14 x)) of None \<Rightarrow> None | Some mi \<Rightarrow>
         case atoi (take 2 (drop 17 x)) of None \<Rightarrow> None | Some sec \<Rightarrow>
           Some \<lparr>Year = y, Month = mo, Day = d, Hour = h, Minute = mi, Second = sec\<rparr>)
      else None)"

text \<open>
  The readings a wall clock gives: a four-digit year, a month of the year, a day of that
  month (leap years by the Gregorian rule), and a time of day.
\<close>

definition leap_year :: "nat \<Rightarrow> bool" where
  "leap_year y = (y mod 4 = 0 \<and> (y mod 100 \<noteq> 0 \<or> y mod 400 = 0))"

definition days_in_month :: "nat \<Rightarrow> nat \<Rightarrow> nat" where
  "days_in_month y m =
     (if m = 2 then (if leap_year y then 29 else 28)
      else if m = 4 \<or> m = 6 \<or> m = 9 \<or> m = 11 then 30
      else 31)"

definition civil :: "time \<Rightarrow> bool" where
  "civil t =
     (Year t \<le> 9999 \<and> 1 \<le> Month t \<and> Month t \<le> 12
      \<and> 1 \<le> Day t \<and> Day t \<le> days_in_month (Year t) (Month t)
      \<and> Hour t \<le> 23 \<and> Minute t \<le> 59 \<and> Second t \<le> 59)"

text \<open>A text is such a timestamp when it reads back as a civil time.\<close>

definition iso8601_utc :: "string \<Rightarrow> bool" where
  "iso8601_utc x = (case stamp_fields x of None \<Rightarrow> False | Some t \<Rightarrow> civil t)"

subsection \<open>What an update must leave alone\<close>

text \<open>The identifier and the creation stamp of a stored document.\<close>

definition id_and_created :: "bson_D \<Rightarrow> bson option \<times> bson option" where
  "id_and_created d = (map_of d ''_id'', map_of d ''createdAt'')"

subsection \<open>Concrete inputs\<close>

text \<open>An ObjectID decoder that takes the hexadecimal string form and nothing else.\<close>

definition ObjectID_of_json :: "json \<Rightarrow> error + ObjectID" where
  "ObjectID_of_json j = (case j of JString x \<Rightarrow> ObjectIDFromHex x | _ \<Rightarrow> Inl ErrInvalidHex)"

definition t0 :: time where
  "t0 = \<lparr>Year = 2022, Month = 3, Day = 7, Hour = 9, Minute = 5, Second = 0\<rparr>"

definition clock0 :: "'s \<Rightarrow> time" where
  "clock0 s = t0"

definition s0 :: mem where
  "s0 = \<lparr>docs = [], next_oid = 1, fault = None\<rparr>"

definition john :: bson_D where
  "john =
     [(''_id'', BObjectID 1), (''name'', BString ''John Doe''), (''dob'', BString ''1/2/3''),
      (''address'', BString ''1 Singapore Road''), (''description'', BString ''test create''),
      (''createdAt'', BString ''2022-03-07T09:05:00Z'')]"

definition jane :: bson_D where
  "jane =
     [(''_id'', BObjectID 1), (''name'', BString ''Jane''), (''dob'', BString ''1/2/3''),
      (''address'', BString ''1 Singapore Road''), (''description'', BString ''test create''),
      (''createdAt'', BString ''2022-03-07T09:05:00Z'')]"

definition s1 :: mem where
  "s1 = \<lparr>docs = [john], next_oid = 2, fault = None\<rparr>"

definition post_john :: request where
  "post_john =
     \<lparr>Param_id = [],
      Body = Some (JObject [(''name'', JString ''John Doe''), (''dob'', JString ''1/2/3''),
                            (''address'', JString ''1 Singapore Road''),
                            (''description'', JString ''test create'')])\<rparr>"

definition put_jane :: "string \<Rightarrow> request" where
  "put_jane ident = \<lparr>Param_id = ident, Body = Some (JObject [(''name'', JString ''Jane'')])\<rparr>"

definition no_body :: "string \<Rightarrow> request" where
  "no_body ident = \<lparr>Param_id = ident, Body = None\<rparr>"

section \<open>Properties\<close>

subsection \<open>Evaluation helpers\<close>

lemmas gin_defs = new_Context_def AbortWithStatus_def AbortWithError_def JSON_def Status_def

lemma userService_sel [simp]:
  "get (userService coll Now) = userService_get coll"
  "create (userService coll Now) = userService_create coll Now"
  "update (userService coll Now) = userService_update coll"
  "delete (userService coll Now) = userService_delete coll"
  by (simp_all add: userService_def)

lemma oid_a: "ObjectIDFromHex ''62a1b2c3d4e5f60718293a4b'' = Inr 0x62a1b2c3d4e5f60718293a4b"
  by (simp add: ObjectIDFromHex_def hexval_def)

lemma oid_1: "ObjectIDFromHex ''000000000000000000000001'' = Inr 1"
  by (simp add: ObjectIDFromHex_def hexval_def)

lemma oid_bad: "ObjectIDFromHex ''1'' = Inl ErrInvalidHex"
  by (simp add: ObjectIDFromHex_def)

lemma bind_put_jane:
  "ShouldBindJSON False (put_jane ident)
     = Inr \<lparr>pName = Some ''Jane'', pDob = None, pAddress = None, pDescription = None\<rparr>"
  by (simp add: ShouldBindJSON_def put_jane_def decode_payload_def zero_payload_def lower_def)

lemma User_of_jane:
  "User_of_payload \<lparr>pName = Some ''Jane'', pDob = None, pAddress = None, pDescription = None\<rparr>
     = \<lparr>ID = None, Name = Some ''Jane'', Dob = None, Address = None, Description = None,
        CreatedAt = None\<rparr>"
  by (simp add: User_of_payload_def)

lemma bson_of_jane:
  "bson_of_User \<lparr>ID = None, Name = Some ''Jane'', Dob = None, Address = None,
                 Description = None, CreatedAt = None\<rparr> = [(''name'', BString ''Jane'')]"
  by (simp add: bson_of_User_def bson_field_def)

lemma Param_put_jane: "Param_id (put_jane ident) = ident"
  by (simp add: put_jane_def)

lemma bind_post_john:
  "ShouldBindJSON True post_john
     = Inr \<lparr>pName = Some ''John Doe'', pDob = Some ''1/2/3'',
            pAddress = Some ''1 Singapore Road'', pDescription = Some ''test create''\<rparr>"
  by (simp add: ShouldBindJSON_def post_john_def decode_payload_def zero_payload_def lower_def)

lemma User_of_john:
  "User_of_payload \<lparr>pName = Some ''John Doe'', pDob = Some ''1/2/3'',
                    pAddress = Some ''1 Singapore Road'', pDescription = Some ''test create''\<rparr>
     = \<lparr>ID = None, Name = Some ''John Doe'', Dob = Some ''1/2/3'',
        Address = Some ''1 Singapore Road'', Description = Some ''test create'',
        CreatedAt = None\<rparr>"
  by (simp add: User_of_payload_def)

lemma Hex_1: "Hex 1 = ''000000000000000000000001''"
  by code_simp

lemma length_Hex: "length (Hex oid) = 24"
  by (simp add: Hex_def)

lemma Format_t0: "Format_RFC3339 t0 = ''2022-03-07T09:05:00Z''"
  by code_simp

lemma civil_t0: "civil t0"
  by (simp add: civil_def t0_def days_in_month_def)

subsection \<open>GET\<close>

text \<open>
  C1. Whenever the service's \<open>get\<close> hands back an error that \<open>errors.Is\<close> recognises as
  \<open>mongo.ErrNoDocuments\<close>, \<open>GetUser\<close> answers 204 and writes no body, whatever the service
  is and whatever user pointer comes with the error.
\<close>

theorem GetUser_NotFound_204:
  assumes "get svc (Param_id r) s = ((user, Some err), s')"
    and "errors_Is err ErrNoDocuments"
  shows "GetUser svc r s = (\<lparr>code = 204, body = NoBody, Errors = []\<rparr>, s')"
  using assms by (simp add: GetUser_def gin_defs)

text \<open>
  The repository's own service over the empty reference store: the id parses, the store
  has no such document, the answer is 204.
\<close>

theorem GetUser_NotFound_204_witness:
  "get (userService mem_Collection clock0) ''62a1b2c3d4e5f60718293a4b'' s0
     = ((None, Some ErrNoDocuments), s0)
   \<and> errors_Is ErrNoDocuments ErrNoDocuments
   \<and> GetUser (userService mem_Collection clock0) (no_body ''62a1b2c3d4e5f60718293a4b'') s0
       = (\<lparr>code = 204, body = NoBody, Errors = []\<rparr>, s0)"
proof -
  have g: "get (userService mem_Collection clock0)
             (Param_id (no_body ''62a1b2c3d4e5f60718293a4b'')) s0
           = ((None, Some ErrNoDocuments), s0)"
    by (simp add: userService_get_def oid_a mem_Collection_def mem_FindOne_def s0_def
        no_body_def)
  have i: "errors_Is ErrNoDocuments ErrNoDocuments" by simp
  from GetUser_NotFound_204 [OF g i] g i show ?thesis by (simp add: no_body_def)
qed

text \<open>
  Down to the store: when the id parses and the lookup fails with an error that is
  \<open>ErrNoDocuments\<close>, the repository's service hands that error on unchanged, and the
  answer is 204.
\<close>

lemma GetUser_store_NotFound:
  assumes "ObjectIDFromHex (Param_id r) = Inr oid"
    and "FindOne coll [(''_id'', BObjectID oid)] s = (Inl err, s')"
    and "errors_Is err ErrNoDocuments"
  shows "get (userService coll Now) (Param_id r) s = ((None, Some err), s')"
    and "GetUser (userService coll Now) r s = (\<lparr>code = 204, body = NoBody, Errors = []\<rparr>, s')"
  using assms by (simp_all add: GetUser_def userService_get_def gin_defs)

lemma userService_get_nil_on_error:
  "userService_get coll ident s = ((user, Some err), s') \<Longrightarrow> user = None"
  by (auto simp: userService_get_def split: sum.splits prod.splits if_splits)

text \<open>
  C2, as the code has it. When \<open>get\<close> hands back an error that is not
  \<open>ErrNoDocuments\<close>, \<open>GetUser\<close> falls through to \<open>c.JSON(http.StatusOK, user)\<close>: the
  status is 200, no error is attached, and the body is the JSON encoding of the user
  pointer that came with the error. \<open>userService.get\<close> returns a nil pointer with every
  error, and a nil pointer is encoded as \<open>null\<close>: the body is those four bytes, no User
  object, but not empty.
\<close>

theorem GetUser_other_error_200:
  assumes "get svc (Param_id r) s = ((user, Some err), s')"
    and "\<not> errors_Is err ErrNoDocuments"
  shows "GetUser svc r s = (\<lparr>code = 200, body = JSONBody (Marshal user), Errors = []\<rparr>, s')
         \<and> (svc = userService coll Now \<longrightarrow> Marshal user = JNull)"
  using assms userService_get_nil_on_error [of coll "Param_id r" s user err s']
  by (auto simp: GetUser_def gin_defs Marshal_def)

theorem GetUser_other_error_200_witness:
  "get (userService mem_Collection clock0) ''1'' s0
     = ((None, Some (Wrap ''invalid user ID'' ErrInvalidHex)), s0)
   \<and> \<not> errors_Is (Wrap ''invalid user ID'' ErrInvalidHex) ErrNoDocuments
   \<and> GetUser (userService mem_Collection clock0) (no_body ''1'') s0
       = (\<lparr>code = 200, body = JSONBody JNull, Errors = []\<rparr>, s0)"
proof -
  have g: "get (userService mem_Collection clock0) (Param_id (no_body ''1'')) s0
           = ((None, Some (Wrap ''invalid user ID'' ErrInvalidHex)), s0)"
    by (simp add: userService_get_def oid_bad no_body_def)
  have i: "\<not> errors_Is (Wrap ''invalid user ID'' ErrInvalidHex) ErrNoDocuments" by simp
  from GetUser_other_error_200 [OF g i, of mem_Collection clock0] g i
  show ?thesis by (simp add: no_body_def)
qed

text \<open>
  The body is not empty: a GET with the malformed id \<open>1\<close> makes the service fail with an
  error other than \<open>ErrNoDocuments\<close>, and the response is 200 with the body \<open>null\<close>.
\<close>

theorem GetUser_other_error_body_counterexample:
  "fst (get (userService mem_Collection clock0) ''1'' s0)
     = (None, Some (Wrap ''invalid user ID'' ErrInvalidHex))
   \<and> \<not> errors_Is (Wrap ''invalid user ID'' ErrInvalidHex) ErrNoDocuments
   \<and> code (fst (GetUser (userService mem_Collection clock0) (no_body ''1'') s0)) = 200
   \<and> body (fst (GetUser (userService mem_Collection clock0) (no_body ''1'') s0)) = JSONBody JNull
   \<and> body (fst (GetUser (userService mem_Collection clock0) (no_body ''1'') s0)) \<noteq> NoBody"
  by (simp add: GetUser_def userService_get_def oid_bad no_body_def gin_defs Marshal_def)

subsection \<open>PUT\<close>

text \<open>
  C3, as the code has it. When the id parses and the store's \<open>UpdateByID\<close> succeeds with
  a matched count below one, \<open>userService.update\<close> returns the pair (nil, nil).
  \<open>UpdateUser\<close> answers such a pair, from this or any other service, with 400 and an empty
  body. The message \<open>user with id `<id>` not found\<close> is built, but \<open>AbortWithError\<close> only
  attaches it to the context (\<open>c.Errors\<close>); it is not part of the response.
\<close>

theorem update_unmatched_400:
  assumes "ObjectIDFromHex (Param_id r) = Inr oid"
    and "ShouldBindJSON False r = Inr p"
    and "UpdateByID coll oid [(''$set'', BDoc (bson_of_User (User_of_payload p)))] s
           = (Inr res, s')"
    and "MatchedCount res < 1"
  shows "update (userService coll Now) (Param_id r) (User_of_payload p) s = ((None, None), s')
         \<and> UpdateUser (userService coll Now) r s
             = (\<lparr>code = 400, body = NoBody,
                 Errors = [Errorf (''user with id `'' @ Param_id r @ ''` not found'')]\<rparr>, s')
         \<and> (\<forall>svc. update svc (Param_id r) (User_of_payload p) s = ((None, None), s')
               \<longrightarrow> UpdateUser svc r s
                    = (\<lparr>code = 400, body = NoBody,
                        Errors = [Errorf (''user with id `'' @ Param_id r @ ''` not found'')]\<rparr>,
                       s'))"
  using assms by (simp add: UpdateUser_def userService_update_def gin_defs)

theorem update_unmatched_400_witness:
  "ObjectIDFromHex ''000000000000000000000001'' = Inr 1
   \<and> MatchedCount (\<lparr>MatchedCount = 0, ModifiedCount = 0\<rparr>) < 1
   \<and> UpdateUser (userService mem_Collection clock0) (put_jane ''000000000000000000000001'') s0
       = (\<lparr>code = 400, body = NoBody,
           Errors = [Errorf ''user with id `000000000000000000000001` not found'']\<rparr>, s0)"
proof -
  let ?r = "put_jane ''000000000000000000000001''"
  let ?p = "\<lparr>pName = Some ''Jane'', pDob = None, pAddress = None, pDescription = None\<rparr>"
  have a: "ObjectIDFromHex (Param_id ?r) = Inr 1"
    by (simp add: put_jane_def oid_1)
  have b: "ShouldBindJSON False ?r = Inr ?p"
    by (rule bind_put_jane)
  have c: "UpdateByID mem_Collection 1 [(''$set'', BDoc (bson_of_User (User_of_payload ?p)))] s0
             = (Inr \<lparr>MatchedCount = 0, ModifiedCount = 0\<rparr>, s0)"
    by (simp add: mem_Collection_def mem_UpdateByID_def s0_def)
  have d: "MatchedCount (\<lparr>MatchedCount = 0, ModifiedCount = 0\<rparr>) < 1" by simp
  from update_unmatched_400 [OF a b c d, of clock0] d oid_1
  show ?thesis by (simp add: put_jane_def)
qed

text \<open>
  The response carries no message: a PUT for a well-formed id on the empty reference
  store is not matched, the service returns (nil, nil), and the 400 response has no body.
\<close>

theorem update_unmatched_body_counterexample:
  "fst (update (userService mem_Collection clock0) ''000000000000000000000001''
          (User_of_payload
             \<lparr>pName = Some ''Jane'', pDob = None, pAddress = None, pDescription = None\<rparr>) s0)
     = (None, None)
   \<and> code (fst (UpdateUser (userService mem_Collection clock0)
                   (put_jane ''000000000000000000000001'') s0)) = 400
   \<and> body (fst (UpdateUser (userService mem_Collection clock0)
                   (put_jane ''000000000000000000000001'') s0)) = NoBody"
  by (simp add: UpdateUser_def bind_put_jane userService_update_def Param_put_jane oid_1
      User_of_jane bson_of_jane mem_Collection_def mem_UpdateByID_def s0_def gin_defs)

text \<open>
  C4. When the body binds, the id parses and \<open>UpdateByID\<close> succeeds with a matched count
  of at least one, \<open>userService.update\<close> returns the very user it was given, and
  \<open>UpdateUser\<close> answers 202 with a JSON object holding exactly the payload's non-nil
  fields, in the order name, dob, address, description. The store sees one call, the
  update: nothing is fetched afterwards.
\<close>

theorem update_matched_202:
  assumes "ShouldBindJSON False r = Inr p"
    and "ObjectIDFromHex (Param_id r) = Inr oid"
    and "UpdateByID coll oid [(''$set'', BDoc (bson_of_User (User_of_payload p)))] s
           = (Inr res, s')"
    and "1 \<le> MatchedCount res"
  shows "update (userService coll Now) (Param_id r) (User_of_payload p) s
           = ((Some (User_of_payload p), None), s')
         \<and> UpdateUser (userService coll Now) r s
             = (\<lparr>code = 202,
                 body = JSONBody (JObject (json_field ''name'' (pName p)
                                           @ json_field ''dob'' (pDob p)
                                           @ json_field ''address'' (pAddress p)
                                           @ json_field ''description'' (pDescription p))),
                 Errors = []\<rparr>, s')
         \<and> snd (snd (UpdateUser (userService (traced coll) Now') r (s, [])))
             = [(UpdateByIDCall oid [(''$set'', BDoc (bson_of_User (User_of_payload p)))], None)]"
  using assms
  by (simp add: UpdateUser_def userService_update_def gin_defs Marshal_def User_of_payload_def
      json_field_def traced_def reported_def)

theorem update_matched_202_witness:
  "ObjectIDFromHex ''000000000000000000000001'' = Inr 1
   \<and> (1::int) \<le> MatchedCount (\<lparr>MatchedCount = 1, ModifiedCount = 1\<rparr>)
   \<and> UpdateUser (userService mem_Collection clock0) (put_jane ''000000000000000000000001'') s1
       = (\<lparr>code = 202, body = JSONBody (JObject [(''name'', JString ''Jane'')]), Errors = []\<rparr>,
          s1\<lparr>docs := [jane]\<rparr>)"
proof -
  let ?r = "put_jane ''000000000000000000000001''"
  let ?p = "\<lparr>pName = Some ''Jane'', pDob = None, pAddress = None, pDescription = None\<rparr>"
  have a: "ShouldBindJSON False ?r = Inr ?p"
    by (rule bind_put_jane)
  have b: "ObjectIDFromHex (Param_id ?r) = Inr 1"
    by (simp add: put_jane_def oid_1)
  have c: "UpdateByID mem_Collection 1 [(''$set'', BDoc (bson_of_User (User_of_payload ?p)))] s1
             = (Inr \<lparr>MatchedCount = 1, ModifiedCount = 1\<rparr>, s1\<lparr>docs := [jane]\<rparr>)"
    by (simp add: mem_Collection_def mem_UpdateByID_def s1_def john_def jane_def matches_def
        User_of_jane bson_of_jane)
  have d: "1 \<le> MatchedCount (\<lparr>MatchedCount = 1, ModifiedCount = 1\<rparr>)" by simp
  from update_matched_202 [OF a b c d, of clock0] d oid_1
  show ?thesis by (simp add: json_field_def)
qed

lemma keys_bson_of_payload:
  "fst ` set (bson_of_User (User_of_payload p))
     \<subseteq> {''name'', ''dob'', ''address'', ''description''}"
  by (auto simp: bson_of_User_def User_of_payload_def bson_field_def split: option.splits)

lemma payload_set_has_no_id:
  "''_id'' \<notin> fst ` set (bson_of_User (User_of_payload p))"
  "''createdAt'' \<notin> fst ` set (bson_of_User (User_of_payload p))"
  using keys_bson_of_payload [of p] by auto

lemma map_of_set_field: "k' \<noteq> k \<Longrightarrow> map_of (set_field k v d) k' = map_of d k'"
  by (induction d) auto

lemma map_of_apply_set:
  "k' \<notin> fst ` set sets \<Longrightarrow> map_of (apply_set sets d) k' = map_of d k'"
  by (induction sets d rule: apply_set.induct) (auto simp: map_of_set_field)

lemma update_first_map:
  "(\<And>x. g (f x) = g x) \<Longrightarrow> update_first P f xs = Some ys \<Longrightarrow> map g ys = map g xs"
  by (induction xs arbitrary: ys) (auto split: if_splits)

lemma mem_update_frame:
  "map id_and_created
     (docs (snd (userService_update mem_Collection ident (User_of_payload p) s)))
   = map id_and_created (docs s)"
proof -
  have g: "id_and_created (apply_set (bson_of_User (User_of_payload p)) d) = id_and_created d"
    for d
    by (simp add: id_and_created_def map_of_apply_set payload_set_has_no_id)
  note frame = update_first_map [where g = id_and_created
      and f = "apply_set (bson_of_User (User_of_payload p))", OF g]
  show ?thesis
    by (auto simp: userService_update_def mem_Collection_def mem_UpdateByID_def
        split: sum.splits option.splits prod.splits dest: frame)
qed

lemma traced_update_calls:
  "snd (snd (userService_update (traced coll) ident user (s, log)))
     = log \<or>
   (\<exists>oid e. snd (snd (userService_update (traced coll) ident user (s, log)))
     = log @ [(UpdateByIDCall oid [(''$set'', BDoc (bson_of_User user))], e)])"
  by (auto simp: userService_update_def traced_def split: sum.splits prod.splits)

text \<open>
  C9. Whatever the request, every \<open>UpdateByID\<close> call that \<open>UpdateUser\<close> makes the
  service send carries an update document of the form \<open>{$set: d}\<close> in which \<open>d\<close> has
  neither an \<open>_id\<close> nor a \<open>createdAt\<close> key: the payload struct has no such fields, and
  extra keys of the request body are dropped when it is decoded. On the reference store,
  where \<open>$set\<close> touches the listed fields only, a PUT therefore leaves the identifier and
  the creation stamp of every document as they were.
\<close>

theorem update_keeps_id_and_created_at:
  "(\<forall>oid upd e.
      (UpdateByIDCall oid upd, e)
        \<in> set (snd (snd (UpdateUser (userService (traced coll) Now) r (s, []))))
      \<longrightarrow> (\<exists>d. upd = [(''$set'', BDoc d)] \<and> ''_id'' \<notin> fst ` set d
                \<and> ''createdAt'' \<notin> fst ` set d))
   \<and> map id_and_created (docs (snd (UpdateUser (userService mem_Collection Now') r m)))
       = map id_and_created (docs m)"
proof (intro conjI allI impI)
  fix oid upd e
  assume a: "(UpdateByIDCall oid upd, e)
        \<in> set (snd (snd (UpdateUser (userService (traced coll) Now) r (s, []))))"
  show "\<exists>d. upd = [(''$set'', BDoc d)] \<and> ''_id'' \<notin> fst ` set d \<and> ''createdAt'' \<notin> fst ` set d"
  proof (cases "ShouldBindJSON False r")
    case (Inl x)
    with a show ?thesis by (simp add: UpdateUser_def)
  next
    case (Inr p)
    let ?run = "userService_update (traced coll) (Param_id r) (User_of_payload p) (s, [])"
    have "snd (UpdateUser (userService (traced coll) Now) r (s, [])) = snd ?run"
      using Inr by (simp add: UpdateUser_def split: prod.split option.split)
    with a have "(UpdateByIDCall oid upd, e) \<in> set (snd (snd ?run))" by simp
    with traced_update_calls [of coll "Param_id r" "User_of_payload p" s "[]"]
    have "upd = [(''$set'', BDoc (bson_of_User (User_of_payload p)))]" by auto
    with payload_set_has_no_id [of p] show ?thesis by blast
  qed
next
  show "map id_and_created (docs (snd (UpdateUser (userService mem_Collection Now') r m)))
       = map id_and_created (docs m)"
  proof (cases "ShouldBindJSON False r")
    case (Inl x)
    then show ?thesis by (simp add: UpdateUser_def)
  next
    case (Inr p)
    then have "snd (UpdateUser (userService mem_Collection Now') r m)
       = snd (userService_update mem_Collection (Param_id r) (User_of_payload p) m)"
      by (simp add: UpdateUser_def split: prod.split option.split)
    with mem_update_frame [of "Param_id r" p m] show ?thesis by simp
  qed
qed

theorem update_keeps_id_and_created_at_witness:
  "snd (snd (UpdateUser (userService (traced mem_Collection) clock0)
               (put_jane ''000000000000000000000001'') (s1, [])))
     = [(UpdateByIDCall 1 [(''$set'', BDoc [(''name'', BString ''Jane'')])], None)]
   \<and> ''_id'' \<notin> fst ` set [(''name'', BString ''Jane'')]
   \<and> ''createdAt'' \<notin> fst ` set [(''name'', BString ''Jane'')]
   \<and> docs (snd (UpdateUser (userService mem_Collection clock0)
                   (put_jane ''000000000000000000000001'') s1)) = [jane]
   \<and> map id_and_created [jane] = map id_and_created (docs s1)"
proof -
  let ?r = "put_jane ''000000000000000000000001''"
  let ?c = "(UpdateByIDCall 1 [(''$set'', BDoc [(''name'', BString ''Jane'')])], None)"
  have u: "UpdateByID mem_Collection 1 [(''$set'', BDoc [(''name'', BString ''Jane'')])] s1
             = (Inr \<lparr>MatchedCount = 1, ModifiedCount = 1\<rparr>, s1\<lparr>docs := [jane]\<rparr>)"
    by (simp add: mem_Collection_def mem_UpdateByID_def s1_def john_def jane_def matches_def)
  have l: "snd (snd (UpdateUser (userService (traced mem_Collection) clock0) ?r (s1, []))) = [?c]"
    by (simp add: UpdateUser_def bind_put_jane userService_update_def Param_put_jane oid_1
        User_of_jane bson_of_jane traced_def u reported_def gin_defs)
  have m: "docs (snd (UpdateUser (userService mem_Collection clock0) ?r s1)) = [jane]"
    by (simp add: UpdateUser_def bind_put_jane userService_update_def Param_put_jane oid_1
        User_of_jane bson_of_jane u gin_defs)
  note t = update_keeps_id_and_created_at [where coll = mem_Collection and Now = clock0
      and Now' = clock0 and r = ?r and s = s1 and m = s1]
  from t l have "\<exists>d. [(''$set'', BDoc [(''name'', BString ''Jane'')])] = [(''$set'', BDoc d)]
      \<and> ''_id'' \<notin> fst ` set d \<and> ''createdAt'' \<notin> fst ` set d"
    by simp
  moreover from t m have "map id_and_created [jane] = map id_and_created (docs s1)"
    by simp
  ultimately show ?thesis using l m by simp
qed

subsection \<open>POST\<close>

lemma decimal_nonempty: "decimal n \<noteq> []"
  by (subst decimal.simps) simp

lemma decimal_length: "n < 10 ^ k \<Longrightarrow> 0 < k \<Longrightarrow> length (decimal n) \<le> k"
proof (induction n arbitrary: k rule: decimal.induct)
  case (1 n)
  show ?case
  proof (cases "n < 10")
    case True
    with 1 show ?thesis by (subst decimal.simps) simp
  next
    case False
    from False 1(2,3) obtain j where k: "k = Suc j" by (cases k) auto
    with False 1(2) have j: "0 < j" by (cases j) auto
    from 1(2) k have "n div 10 < 10 ^ j" by (simp add: less_mult_imp_div_less mult.commute)
    from 1(1) [OF False this j] False k show ?thesis by (subst decimal.simps) simp
  qed
qed

lemma read_digits_append:
  "read_digits (xs @ ys) acc
     = (case read_digits xs acc of None \<Rightarrow> None | Some a \<Rightarrow> read_digits ys a)"
  by (induction xs arbitrary: acc) simp_all

lemma read_digit: "d < 10 \<Longrightarrow> read_digits [char_of (48 + d)] acc = Some (acc * 10 + d)"
  by (simp add: is_digit_def)

lemma read_decimal: "read_digits (decimal n) 0 = Some n"
proof (induction n rule: decimal.induct)
  case (1 n)
  show ?case
  proof (cases "n < 10")
    case True
    then show ?thesis by (subst decimal.simps) (simp add: read_digit del: read_digits.simps)
  next
    case False
    have "n mod 10 < 10" by simp
    from read_digit [OF this, of "n div 10"] False 1 show ?thesis
      by (subst decimal.simps) (simp add: read_digits_append del: read_digits.simps)
  qed
qed

lemma read_zeros: "read_digits (replicate k (CHR ''0'')) 0 = Some 0"
  by (induction k) (simp_all add: is_digit_def)

lemma atoi_appendInt: "atoi (appendInt n w) = Some n"
  by (simp add: atoi_def appendInt_def decimal_nonempty read_digits_append read_zeros read_decimal)

lemma length_appendInt: "n < 10 ^ w \<Longrightarrow> 0 < w \<Longrightarrow> length (appendInt n w) = w"
  using decimal_length [of n w] by (simp add: appendInt_def)

lemma stamp_fields_shape:
  assumes "length a = 4" "length b = 2" "length c = 2" "length d = 2" "length e = 2" "length f = 2"
    and "atoi a = Some y" "atoi b = Some mo" "atoi c = Some dd"
      "atoi d = Some h" "atoi e = Some mi" "atoi f = Some sec"
  shows "stamp_fields (a @ ''-'' @ b @ ''-'' @ c @ ''T'' @ d @ '':'' @ e @ '':'' @ f @ ''Z'')
           = Some \<lparr>Year = y, Month = mo, Day = dd, Hour = h, Minute = mi, Second = sec\<rparr>"
  using assms by (simp add: stamp_fields_def nth_append)

lemma days_in_month_le: "days_in_month y m \<le> 31"
  by (simp add: days_in_month_def)

lemma stamp_fields_Format: "civil t \<Longrightarrow> stamp_fields (Format_RFC3339 t) = Some t"
proof -
  assume c: "civil t"
  from c days_in_month_le [of "Year t" "Month t"] have d: "Day t < 10 ^ 2"
    by (simp add: civil_def)
  from c have y: "Year t < 10 ^ 4" and mo: "Month t < 10 ^ 2" and h: "Hour t < 10 ^ 2"
    and mi: "Minute t < 10 ^ 2" and sec: "Second t < 10 ^ 2"
    by (simp_all add: civil_def)
  have "stamp_fields (Format_RFC3339 t)
      = Some \<lparr>Year = Year t, Month = Month t, Day = Day t, Hour = Hour t,
              Minute = Minute t, Second = Second t\<rparr>"
    unfolding Format_RFC3339_def
    using stamp_fields_shape [where a = "appendInt (Year t) 4" and b = "appendInt (Month t) 2"
        and c = "appendInt (Day t) 2" and d = "appendInt (Hour t) 2"
        and e = "appendInt (Minute t) 2" and f = "appendInt (Second t) 2",
        OF length_appendInt [OF y] length_appendInt [OF mo] length_appendInt [OF d]
        length_appendInt [OF h] length_appendInt [OF mi] length_appendInt [OF sec]
        atoi_appendInt atoi_appendInt atoi_appendInt atoi_appendInt atoi_appendInt
        atoi_appendInt]
    by simp
  then show ?thesis by simp
qed

lemma Format_RFC3339_iso: "civil t \<Longrightarrow> iso8601_utc (Format_RFC3339 t)"
  by (simp add: iso8601_utc_def stamp_fields_Format)

lemma Format_RFC3339_nonempty: "Format_RFC3339 t \<noteq> []"
  by (simp add: Format_RFC3339_def)

lemma map_of_bson_createdAt:
  "map_of (bson_of_User u) ''createdAt'' = map_option BString (CreatedAt u)"
  by (simp add: bson_of_User_def bson_field_def split: option.split)

lemma mem_InsertOne_reports_document_id:
  "InsertOne mem_Collection d s = (Inr res, s') \<Longrightarrow> reports_document_id d res"
  by (auto simp: mem_Collection_def mem_InsertOne_def reports_document_id_def
      split: option.splits if_splits)

lemma bson_of_User_no_id: "ID u = None \<Longrightarrow> map_of (bson_of_User u) ''_id'' = None"
  by (simp add: bson_of_User_def bson_field_def split: option.split)

lemma required_present:
  "ShouldBindJSON True r = Inr p \<Longrightarrow> pName p \<noteq> None \<and> pDob p \<noteq> None \<and> pAddress p \<noteq> None"
  by (auto simp: ShouldBindJSON_def split: option.splits sum.splits if_splits)

text \<open>
  C5. Let the clock read a civil time \<open>Now s\<close> when \<open>create\<close> is called. The stamp
  \<open>create\<close> computes, \<open>time.Now().UTC().Format(time.RFC3339)\<close>, is an ISO-8601 timestamp
  \<open>YYYY-MM-DDThh:mm:ssZ\<close> whose six fields read back as exactly that clock reading. The
  user has the stamp as \<open>CreatedAt\<close> when \<open>create\<close> returns, whether the insert worked or
  not; what the caller had put into \<open>CreatedAt\<close> makes no difference to anything
  \<open>create\<close> does; and the store receives exactly one call, an insert of a document whose
  \<open>createdAt\<close> is already the stamp.
\<close>

theorem create_stamps_created_at:
  assumes "civil (Now s)"
  shows "iso8601_utc (Format_RFC3339 (Now s))
     \<and> stamp_fields (Format_RFC3339 (Now s)) = Some (Now s)
     \<and> CreatedAt (snd (fst (create (userService coll Now) user s)))
         = Some (Format_RFC3339 (Now s))
     \<and> create (userService coll Now) (user\<lparr>CreatedAt := c\<rparr>) s
         = create (userService coll Now) user s
     \<and> (\<exists>d e. snd (snd (create (userService (traced coll) (Now \<circ> fst)) user (s, [])))
                 = [(InsertOneCall d, e)]
            \<and> map_of d ''createdAt'' = Some (BString (Format_RFC3339 (Now s))))"
proof (intro conjI)
  show "iso8601_utc (Format_RFC3339 (Now s))" using assms by (rule Format_RFC3339_iso)
  show "stamp_fields (Format_RFC3339 (Now s)) = Some (Now s)"
    using assms by (rule stamp_fields_Format)
  show "CreatedAt (snd (fst (create (userService coll Now) user s)))
          = Some (Format_RFC3339 (Now s))"
    by (simp add: userService_create_def Let_def split: prod.split sum.split bson.split)
  show "create (userService coll Now) (user\<lparr>CreatedAt := c\<rparr>) s
          = create (userService coll Now) user s"
    by (simp add: userService_create_def)
  show "\<exists>d e. snd (snd (create (userService (traced coll) (Now \<circ> fst)) user (s, [])))
                = [(InsertOneCall d, e)]
            \<and> map_of d ''createdAt'' = Some (BString (Format_RFC3339 (Now s)))"
    by (simp add: userService_create_def traced_def Let_def map_of_bson_createdAt
        split: prod.split sum.split bson.split)
qed

theorem create_stamps_created_at_witness:
  "civil (clock0 s0)
   \<and> iso8601_utc ''2022-03-07T09:05:00Z''
   \<and> stamp_fields ''2022-03-07T09:05:00Z''
       = Some \<lparr>Year = 2022, Month = 3, Day = 7, Hour = 9, Minute = 5, Second = 0\<rparr>
   \<and> create (userService mem_Collection clock0)
        \<lparr>ID = None, Name = Some ''John Doe'', Dob = None, Address = None, Description = None,
         CreatedAt = Some ''yesterday''\<rparr> s0
       = ((None, \<lparr>ID = Some 1, Name = Some ''John Doe'', Dob = None, Address = None,
                  Description = None, CreatedAt = Some ''2022-03-07T09:05:00Z''\<rparr>),
          \<lparr>docs = [[(''_id'', BObjectID 1), (''name'', BString ''John Doe''),
                     (''createdAt'', BString ''2022-03-07T09:05:00Z'')]],
           next_oid = 2, fault = None\<rparr>)"
proof -
  have c: "civil (clock0 s0)" by (simp add: clock0_def civil_t0)
  have f: "Format_RFC3339 (clock0 s0) = ''2022-03-07T09:05:00Z''"
    by (simp add: clock0_def Format_t0)
  have n: "clock0 s0 = \<lparr>Year = 2022, Month = 3, Day = 7, Hour = 9, Minute = 5, Second = 0\<rparr>"
    by (simp add: clock0_def t0_def)
  have r: "create (userService mem_Collection clock0)
        \<lparr>ID = None, Name = Some ''John Doe'', Dob = None, Address = None, Description = None,
         CreatedAt = Some ''yesterday''\<rparr> s0
       = ((None, \<lparr>ID = Some 1, Name = Some ''John Doe'', Dob = None, Address = None,
                  Description = None, CreatedAt = Some ''2022-03-07T09:05:00Z''\<rparr>),
          \<lparr>docs = [[(''_id'', BObjectID 1), (''name'', BString ''John Doe''),
                     (''createdAt'', BString ''2022-03-07T09:05:00Z'')]],
           next_oid = 2, fault = None\<rparr>)"
    by (simp add: userService_create_def Let_def clock0_def Format_t0 mem_Collection_def
        mem_InsertOne_def s0_def bson_of_User_def bson_field_def)
  note t = create_stamps_created_at [where Now = clock0 and s = s0 and coll = mem_Collection,
      OF c]
  from t have "iso8601_utc (Format_RFC3339 (clock0 s0))" by (rule conjunct1)
  then have 1: "iso8601_utc ''2022-03-07T09:05:00Z''" by (simp only: f)
  from t have "stamp_fields (Format_RFC3339 (clock0 s0)) = Some (clock0 s0)"
    by blast
  then have "stamp_fields ''2022-03-07T09:05:00Z'' = Some (clock0 s0)" by (simp only: f)
  then have 2: "stamp_fields ''2022-03-07T09:05:00Z''
       = Some \<lparr>Year = 2022, Month = 3, Day = 7, Hour = 9, Minute = 5, Second = 0\<rparr>"
    by (simp only: n)
  from 1 2 c r show ?thesis by (intro conjI)
qed

text \<open>
  C6. Let the body bind with the required fields and the insert succeed, the store
  reporting, as the driver does, the \<open>_id\<close> of the document it inserted. Then \<open>CreateUser\<close>
  answers 201 with a JSON object that holds an \<open>id\<close> of 24 hexadecimal digits, the
  identifier the store reported, then the submitted name, dob and address, the
  description if one was submitted, and a non-empty \<open>createdAt\<close>.
\<close>

theorem CreateUser_201:
  assumes "ShouldBindJSON True r = Inr p"
    and "InsertOne coll
           (bson_of_User ((User_of_payload p)\<lparr>CreatedAt := Some (Format_RFC3339 (Now s))\<rparr>)) s
         = (Inr res, s')"
    and "reports_document_id
           (bson_of_User ((User_of_payload p)\<lparr>CreatedAt := Some (Format_RFC3339 (Now s))\<rparr>))
           res"
  shows "\<exists>n d a oid. pName p = Some n \<and> pDob p = Some d \<and> pAddress p = Some a
           \<and> InsertedID res = BObjectID oid
           \<and> CreateUser (userService coll Now) r s
               = (\<lparr>code = 201,
                   body = JSONBody (JObject
                     ([(''id'', JString (Hex oid)), (''name'', JString n),
                       (''dob'', JString d), (''address'', JString a)]
                      @ json_field ''description'' (pDescription p)
                      @ [(''createdAt'', JString (Format_RFC3339 (Now s)))])),
                   Errors = []\<rparr>, s')
           \<and> length (Hex oid) = 24
           \<and> Format_RFC3339 (Now s) \<noteq> []"
proof -
  let ?u = "(User_of_payload p)\<lparr>CreatedAt := Some (Format_RFC3339 (Now s))\<rparr>"
  from required_present [OF assms(1)] obtain n d a
    where p: "pName p = Some n" "pDob p = Some d" "pAddress p = Some a" by auto
  have "map_of (bson_of_User ?u) ''_id'' = None"
    by (rule bson_of_User_no_id) (simp add: User_of_payload_def)
  with assms(3) obtain oid where o: "InsertedID res = BObjectID oid"
    by (auto simp: reports_document_id_def split: bson.splits)
  have "CreateUser (userService coll Now) r s
               = (\<lparr>code = 201,
                   body = JSONBody (JObject
                     ([(''id'', JString (Hex oid)), (''name'', JString n),
                       (''dob'', JString d), (''address'', JString a)]
                      @ json_field ''description'' (pDescription p)
                      @ [(''createdAt'', JString (Format_RFC3339 (Now s)))])),
                   Errors = []\<rparr>, s')"
    using assms(1,2) p o
    by (simp add: CreateUser_def userService_create_def gin_defs Marshal_def Let_def
        User_of_payload_def json_field_def)
  with p o Format_RFC3339_nonempty length_Hex show ?thesis by blast
qed

theorem CreateUser_201_witness:
  "reports_document_id
     [(''name'', BString ''John Doe''), (''dob'', BString ''1/2/3''),
      (''address'', BString ''1 Singapore Road''), (''description'', BString ''test create''),
      (''createdAt'', BString ''2022-03-07T09:05:00Z'')]
     \<lparr>InsertedID = BObjectID 1\<rparr>
   \<and> CreateUser (userService mem_Collection clock0) post_john s0
     = (\<lparr>code = 201,
         body = JSONBody (JObject
           [(''id'', JString ''000000000000000000000001''),
            (''name'', JString ''John Doe''), (''dob'', JString ''1/2/3''),
            (''address'', JString ''1 Singapore Road''),
            (''description'', JString ''test create''),
            (''createdAt'', JString ''2022-03-07T09:05:00Z'')]),
         Errors = []\<rparr>, s1)"
proof -
  let ?p = "\<lparr>pName = Some ''John Doe'', pDob = Some ''1/2/3'',
             pAddress = Some ''1 Singapore Road'', pDescription = Some ''test create''\<rparr>"
  let ?d = "bson_of_User
              ((User_of_payload ?p)\<lparr>CreatedAt := Some (Format_RFC3339 (clock0 s0))\<rparr>)"
  have e: "?d = [(''name'', BString ''John Doe''), (''dob'', BString ''1/2/3''),
      (''address'', BString ''1 Singapore Road''), (''description'', BString ''test create''),
      (''createdAt'', BString ''2022-03-07T09:05:00Z'')]"
    by (simp add: User_of_john bson_of_User_def bson_field_def clock0_def Format_t0)
  have a: "ShouldBindJSON True post_john = Inr ?p" by (rule bind_post_john)
  have b: "InsertOne mem_Collection ?d s0 = (Inr \<lparr>InsertedID = BObjectID 1\<rparr>, s1)"
    unfolding e by (simp add: mem_Collection_def mem_InsertOne_def s0_def s1_def john_def)
  have c: "reports_document_id ?d \<lparr>InsertedID = BObjectID 1\<rparr>"
    unfolding e by (simp add: reports_document_id_def)
  from CreateUser_201 [where Now = clock0, OF a b c] c [unfolded e] show ?thesis
    by (simp add: json_field_def Hex_1 clock0_def Format_t0)
qed

text \<open>
  The reference store keeps to that contract for every document and state, so on it the
  hypothesis about the reported id is no restriction.
\<close>

lemma CreateUser_201_mem:
  assumes "ShouldBindJSON True r = Inr p"
    and "InsertOne mem_Collection
           (bson_of_User ((User_of_payload p)\<lparr>CreatedAt := Some (Format_RFC3339 (Now s))\<rparr>)) s
         = (Inr res, s')"
  shows "\<exists>kvs oid. CreateUser (userService mem_Collection Now) r s
                     = (\<lparr>code = 201, body = JSONBody (JObject kvs), Errors = []\<rparr>, s')
           \<and> map_of kvs ''id'' = Some (JString (Hex oid))
           \<and> map_of kvs ''createdAt'' = Some (JString (Format_RFC3339 (Now s)))"
proof -
  let ?u = "(User_of_payload p)\<lparr>CreatedAt := Some (Format_RFC3339 (Now s))\<rparr>"
  have "map_of (bson_of_User ?u) ''_id'' = None"
    by (rule bson_of_User_no_id) (simp add: User_of_payload_def)
  with mem_InsertOne_reports_document_id [OF assms(2)]
  obtain oid where o: "InsertedID res = BObjectID oid"
    by (auto simp: reports_document_id_def split: bson.splits)
  show ?thesis using assms o
    by (auto simp: CreateUser_def userService_create_def gin_defs Marshal_def Let_def
        User_of_payload_def json_field_def split: option.split)
qed

text \<open>
  C10. Whenever the insert succeeds with an inserted id that is not an ObjectID, \<open>create\<close>
  returns no error and the user it was given with only \<open>CreatedAt\<close> changed, so the
  identifier stays as it was; for the user \<open>CreateUser\<close> builds that is nil, and the 201
  body is a JSON object without the key \<open>id\<close>.
\<close>

theorem create_without_ObjectID:
  assumes "InsertOne coll (bson_of_User (user\<lparr>CreatedAt := Some (Format_RFC3339 (Now s))\<rparr>)) s
             = (Inr res, s')"
    and "\<forall>oid. InsertedID res \<noteq> BObjectID oid"
  shows "create (userService coll Now) user s
           = ((None, user\<lparr>CreatedAt := Some (Format_RFC3339 (Now s))\<rparr>), s')
         \<and> (\<forall>r p. ShouldBindJSON True r = Inr p \<longrightarrow> user = User_of_payload p \<longrightarrow>
               (\<exists>kvs. CreateUser (userService coll Now) r s
                         = (\<lparr>code = 201, body = JSONBody (JObject kvs), Errors = []\<rparr>, s')
                     \<and> ''id'' \<notin> fst ` set kvs))"
proof -
  have c: "userService_create coll Now user s
           = ((None, user\<lparr>CreatedAt := Some (Format_RFC3339 (Now s))\<rparr>), s')"
    using assms by (simp add: userService_create_def Let_def split: bson.split)
  have k: "''id'' \<notin> fst ` set (json_field k v)" if "k \<noteq> ''id''" for k v
    using that by (cases v) (simp_all add: json_field_def)
  have n: "json_field k None = []" for k
    by (simp add: json_field_def)
  show ?thesis
  proof (intro conjI allI impI)
    show "create (userService coll Now) user s
           = ((None, user\<lparr>CreatedAt := Some (Format_RFC3339 (Now s))\<rparr>), s')"
      using c by simp
  next
    fix r p
    assume b: "ShouldBindJSON True r = Inr p" and u: "user = User_of_payload p"
    have "CreateUser (userService coll Now) r s
            = (\<lparr>code = 201,
                body = JSONBody
                  (Marshal (Some (user\<lparr>CreatedAt := Some (Format_RFC3339 (Now s))\<rparr>))),
                Errors = []\<rparr>, s')"
      using b u c by (simp add: CreateUser_def gin_defs)
    moreover have "ID user = None" using u by (simp add: User_of_payload_def)
    ultimately show "\<exists>kvs. CreateUser (userService coll Now) r s
                         = (\<lparr>code = 201, body = JSONBody (JObject kvs), Errors = []\<rparr>, s')
                     \<and> ''id'' \<notin> fst ` set kvs"
      by (simp add: Marshal_def k n image_Un)
  qed
qed

theorem create_without_ObjectID_witness:
  "InsertedID (\<lparr>InsertedID = BInt 7\<rparr>) \<noteq> BObjectID 1
   \<and> create (userService (stub_Collection (BInt 7)) clock0)
        (User_of_payload \<lparr>pName = Some ''John Doe'', pDob = Some ''1/2/3'',
            pAddress = Some ''1 Singapore Road'', pDescription = Some ''test create''\<rparr>) ()
       = ((None, \<lparr>ID = None, Name = Some ''John Doe'', Dob = Some ''1/2/3'',
                  Address = Some ''1 Singapore Road'', Description = Some ''test create'',
                  CreatedAt = Some ''2022-03-07T09:05:00Z''\<rparr>), ())
   \<and> code (fst (CreateUser (userService (stub_Collection (BInt 7)) clock0) post_john ())) = 201"
proof -
  let ?p = "\<lparr>pName = Some ''John Doe'', pDob = Some ''1/2/3'',
             pAddress = Some ''1 Singapore Road'', pDescription = Some ''test create''\<rparr>"
  have a: "InsertOne (stub_Collection (BInt 7))
             (bson_of_User ((User_of_payload ?p)\<lparr>CreatedAt := Some (Format_RFC3339 (clock0 ()))\<rparr>))
             ()
           = (Inr \<lparr>InsertedID = BInt 7\<rparr>, ())"
    by (simp add: stub_Collection_def)
  have b: "\<forall>oid. InsertedID (\<lparr>InsertedID = BInt 7\<rparr>) \<noteq> BObjectID oid" by simp
  note t = create_without_ObjectID [where Now = clock0, OF a b]
  from t have 1: "create (userService (stub_Collection (BInt 7)) clock0) (User_of_payload ?p) ()
       = ((None, (User_of_payload ?p)\<lparr>CreatedAt := Some (Format_RFC3339 (clock0 ()))\<rparr>), ())"
    by blast
  from t bind_post_john
  have "\<exists>kvs. CreateUser (userService (stub_Collection (BInt 7)) clock0) post_john ()
                 = (\<lparr>code = 201, body = JSONBody (JObject kvs), Errors = []\<rparr>, ())
             \<and> ''id'' \<notin> fst ` set kvs"
    by blast
  then have 2:
    "code (fst (CreateUser (userService (stub_Collection (BInt 7)) clock0) post_john ())) = 201"
    by auto
  from 1 2 show ?thesis by (simp add: User_of_john clock0_def Format_t0)
qed

subsection \<open>DELETE\<close>

text \<open>
  C7, as the code has it. When the id parses, \<open>DeleteUser\<close> answers by what the store's
  \<open>DeleteOne\<close> reports: 500, with the wrapped error attached, if it reports an error, and
  200 with no body otherwise, whatever the deleted count, zero included. When the id does
  not parse, whatever the id and the store, \<open>DeleteUser\<close> answers 500 with the error
  \<open>invalid user ID\<close> attached, the state is untouched and the store receives no call.
\<close>

theorem DeleteUser_status:
  "(ObjectIDFromHex (Param_id r) = Inr oid \<longrightarrow>
      DeleteOne coll [(''_id'', BObjectID oid)] s = (res, s') \<longrightarrow>
      DeleteUser (userService coll Now) r s
        = (case res of
             Inl err \<Rightarrow>
               (\<lparr>code = 500, body = NoBody,
                 Errors = [Wrap (''failed to delete user with id '' @ Param_id r) err]\<rparr>, s')
           | Inr deleted \<Rightarrow> (\<lparr>code = 200, body = NoBody, Errors = []\<rparr>, s')))
   \<and> (ObjectIDFromHex (Param_id r) = Inl e \<longrightarrow>
        DeleteUser (userService coll Now) r s
          = (\<lparr>code = 500, body = NoBody, Errors = [Errorf ''invalid user ID'']\<rparr>, s)
        \<and> DeleteUser (userService (traced coll) Now') r (s, log)
          = (\<lparr>code = 500, body = NoBody, Errors = [Errorf ''invalid user ID'']\<rparr>, (s, log)))"
  by (simp add: DeleteUser_def userService_delete_def gin_defs split: sum.split)

theorem DeleteUser_status_witness:
  "ObjectIDFromHex ''000000000000000000000001'' = Inr 1
   \<and> DeleteOne mem_Collection [(''_id'', BObjectID 1)] s0 = (Inr \<lparr>DeletedCount = 0\<rparr>, s0)
   \<and> DeleteUser (userService mem_Collection clock0) (no_body ''000000000000000000000001'') s0
       = (\<lparr>code = 200, body = NoBody, Errors = []\<rparr>, s0)
   \<and> DeleteOne mem_Collection [(''_id'', BObjectID 1)]
        (s0\<lparr>fault := Some (Opaque ''connection lost'')\<rparr>)
       = (Inl (Opaque ''connection lost''), s0\<lparr>fault := Some (Opaque ''connection lost'')\<rparr>)
   \<and> DeleteUser (userService mem_Collection clock0) (no_body ''000000000000000000000001'')
        (s0\<lparr>fault := Some (Opaque ''connection lost'')\<rparr>)
       = (\<lparr>code = 500, body = NoBody,
           Errors = [Wrap ''failed to delete user with id 000000000000000000000001''
                       (Opaque ''connection lost'')]\<rparr>,
          s0\<lparr>fault := Some (Opaque ''connection lost'')\<rparr>)
   \<and> ObjectIDFromHex ''not-an-object-id'' = Inl ErrInvalidHex
   \<and> DeleteUser (userService (traced mem_Collection) clock0) (no_body ''not-an-object-id'')
        (s1, [])
       = (\<lparr>code = 500, body = NoBody, Errors = [Errorf ''invalid user ID'']\<rparr>, (s1, []))"
proof -
  let ?r = "no_body ''000000000000000000000001''"
  let ?q = "no_body ''not-an-object-id''"
  let ?f = "s0\<lparr>fault := Some (Opaque ''connection lost'')\<rparr>"
  have a: "ObjectIDFromHex (Param_id ?r) = Inr 1" by (simp add: no_body_def oid_1)
  have b: "DeleteOne mem_Collection [(''_id'', BObjectID 1)] s0 = (Inr \<lparr>DeletedCount = 0\<rparr>, s0)"
    by (simp add: mem_Collection_def mem_DeleteOne_def s0_def)
  have c: "DeleteOne mem_Collection [(''_id'', BObjectID 1)] ?f
             = (Inl (Opaque ''connection lost''), ?f)"
    by (simp add: mem_Collection_def mem_DeleteOne_def s0_def)
  have d: "ObjectIDFromHex ''not-an-object-id'' = Inl ErrInvalidHex"
    by (simp add: ObjectIDFromHex_def)
  then have d': "ObjectIDFromHex (Param_id ?q) = Inl ErrInvalidHex"
    by (simp add: no_body_def)
  note t = DeleteUser_status [where Now = clock0 and Now' = clock0 and coll = mem_Collection]
  from t [where r = ?r and oid = 1 and s = s0 and res = "Inr \<lparr>DeletedCount = 0\<rparr>" and s' = s0]
    a b
  have 1: "DeleteUser (userService mem_Collection clock0) ?r s0
       = (\<lparr>code = 200, body = NoBody, Errors = []\<rparr>, s0)"
    by simp
  from t [where r = ?r and oid = 1 and s = ?f and res = "Inl (Opaque ''connection lost'')"
      and s' = ?f] a c
  have 2: "DeleteUser (userService mem_Collection clock0) ?r ?f
       = (\<lparr>code = 500, body = NoBody,
           Errors = [Wrap (''failed to delete user with id '' @ Param_id ?r)
                       (Opaque ''connection lost'')]\<rparr>, ?f)"
    by simp
  from t [where r = ?q and e = ErrInvalidHex and s = s1 and log = "[]"] d'
  have 3: "DeleteUser (userService (traced mem_Collection) clock0) ?q (s1, [])
       = (\<lparr>code = 500, body = NoBody, Errors = [Errorf ''invalid user ID'']\<rparr>, (s1, []))"
    by simp
  from 1 2 3 b c d oid_1 show ?thesis by (simp add: no_body_def)
qed

text \<open>
  A 500 without any failure of the store: a DELETE with the malformed id \<open>1\<close> against the
  healthy, empty reference store. The call log stays empty, so the store was never asked
  and reported nothing, and the answer is 500.
\<close>

theorem DeleteUser_malformed_id_counterexample:
  "DeleteUser (userService (traced mem_Collection) clock0) (no_body ''1'') (s0, [])
     = (\<lparr>code = 500, body = NoBody, Errors = [Errorf ''invalid user ID'']\<rparr>, (s0, []))"
  by (simp add: DeleteUser_def userService_delete_def oid_bad no_body_def gin_defs)

subsection \<open>The entity on the wire\<close>

text \<open>
  C8. A User with only name and dob set is encoded as a JSON object with exactly the keys
  \<open>name\<close> and \<open>dob\<close>: the other four keys are left out, none is written as \<open>null\<close>.
  Decoding that object gives a User whose address, description, id and createdAt are
  nil, whatever the ObjectID decoder is.
\<close>

theorem User_name_dob_roundtrip:
  "Marshal (Some \<lparr>ID = None, Name = Some n, Dob = Some d, Address = None,
                  Description = None, CreatedAt = None\<rparr>)
     = JObject [(''name'', JString n), (''dob'', JString d)]
   \<and> Unmarshal dec (Marshal (Some \<lparr>ID = None, Name = Some n, Dob = Some d, Address = None,
                                   Description = None, CreatedAt = None\<rparr>))
     = Inr \<lparr>ID = None, Name = Some n, Dob = Some d, Address = None,
            Description = None, CreatedAt = None\<rparr>"
  by (simp add: Marshal_def json_field_def Unmarshal_def zero_User_def lower_def)

theorem User_name_dob_roundtrip_witness:
  "Marshal (Some \<lparr>ID = None, Name = Some ''John Doe'', Dob = Some ''1/2/3'', Address = None,
                  Description = None, CreatedAt = None\<rparr>)
     = JObject [(''name'', JString ''John Doe''), (''dob'', JString ''1/2/3'')]
   \<and> Unmarshal ObjectID_of_json
        (Marshal (Some \<lparr>ID = None, Name = Some ''John Doe'', Dob = Some ''1/2/3'',
                         Address = None, Description = None, CreatedAt = None\<rparr>))
     = Inr \<lparr>ID = None, Name = Some ''John Doe'', Dob = Some ''1/2/3'', Address = None,
            Description = None, CreatedAt = None\<rparr>"
  by (rule User_name_dob_roundtrip)

end
